theory Spec2Isabelle
  imports Main "HOL-Library.Char_ord" "HOL-Library.List_Lexorder" "HOL-Library.Multiset"
begin

section \<open>Data model\<close>

text \<open>
  The program is a Go web service (\<^verbatim>\<open>main.go\<close>) over an SQLite database with two
  tables, \<^verbatim>\<open>media\<close> and the full-text table \<^verbatim>\<open>media_fts\<close>. A row of \<^verbatim>\<open>media\<close> is
  read into the Go struct \<^verbatim>\<open>Media\<close>; the record below has its fields, with the
  \<^verbatim>\<open>sql.NullString\<close> and \<^verbatim>\<open>sql.NullInt32\<close> fields as options (\<open>None\<close> is SQL NULL).
  Integers are Go's \<^verbatim>\<open>int64\<close> and \<^verbatim>\<open>int\<close>; no arithmetic on them can overflow here, so
  they are \<open>int\<close>.
\<close>

record Media =
  ID :: int
  Path :: string
  Thumb :: "string option"
  Mime :: string
  Width :: "int option"
  Height :: "int option"
  SizeBytes :: int
  Tags :: string
  OcrText :: "string option"
  ProcessingStatus :: string
  CreatedAt :: string

text \<open>
  \<^verbatim>\<open>CREATE VIRTUAL TABLE media_fts USING fts4(id, ocr_text, tags, path)\<close>: a row has the
  implicit \<^verbatim>\<open>rowid\<close> of every SQLite table and the four declared columns. The declared
  column \<^verbatim>\<open>id\<close> is a column of its own, not an alias of \<^verbatim>\<open>rowid\<close>; it is NULL in a row
  whose INSERT does not name it.
\<close>

record fts_row =
  rowid :: int
  fts_id :: "int option"
  fts_ocr_text :: string
  fts_tags :: string
  fts_path :: string

text \<open>\<^verbatim>\<open>type ProcessingJob struct { ID int64; Path string; MimeType string }\<close>\<close>

record ProcessingJob =
  JobID :: int
  JobPath :: string
  JobMimeType :: string

text \<open>
  Files on disk. What the pipeline observes of a file is whether \<^verbatim>\<open>imaging.Open\<close> decodes
  it and, if so, the pixel size of the decoded image (\<^verbatim>\<open>Bounds().Dx()\<close>, \<^verbatim>\<open>Bounds().Dy()\<close>).
\<close>

datatype image = Image (Dx: int) (Dy: int)

datatype content = ImageFile image | OtherFile

datatype ResampleFilter = NearestNeighbor | Box | Linear | CatmullRom | Lanczos

text \<open>
  The SQL statements the program issues, one constructor for each statement text in
  \<^verbatim>\<open>main.go\<close>, with the bound parameters in the order of the \<^verbatim>\<open>?\<close> placeholders.
\<close>

datatype sql =
    InsertMedia string string int string string
      \<comment> \<open>\<^verbatim>\<open>INSERT INTO media (path, mime, size_bytes, tags, processing_status) VALUES (?, ?, ?, ?, ?)\<close>\<close>
  | InsertFts int string string string
      \<comment> \<open>\<^verbatim>\<open>INSERT INTO media_fts (rowid, ocr_text, tags, path) VALUES (?, ?, ?, ?)\<close>\<close>
  | UpdateMediaTags string int
      \<comment> \<open>\<^verbatim>\<open>UPDATE media SET tags = ? WHERE id = ?\<close>\<close>
  | UpdateFtsTags string int
      \<comment> \<open>\<^verbatim>\<open>UPDATE media_fts SET tags = ? WHERE rowid = ?\<close>\<close>
  | UpdateMediaDerived string int int string int
      \<comment> \<open>\<^verbatim>\<open>UPDATE media SET thumb = ?, width = ?, height = ?, ocr_text = ?, processing_status = 'completed' WHERE id = ?\<close>\<close>
  | UpdateFtsOcr string int
      \<comment> \<open>\<^verbatim>\<open>UPDATE media_fts SET ocr_text = ? WHERE id = ?\<close>\<close>
  | SelectAllMedia
      \<comment> \<open>\<^verbatim>\<open>SELECT ... FROM media ORDER BY created_at DESC\<close>\<close>
  | SelectFtsMatch string
      \<comment> \<open>\<^verbatim>\<open>SELECT rowid FROM media_fts WHERE media_fts MATCH ?\<close>\<close>
  | SelectMediaIn "int list"
      \<comment> \<open>\<^verbatim>\<open>SELECT ... FROM media WHERE id IN (?,...,?) ORDER BY created_at DESC\<close>\<close>

text \<open>The lines written with \<^verbatim>\<open>log.Printf\<close>, one constructor for each format string.\<close>

datatype logline =
    LogWorkerProcessing nat int
  | LogStartingProcessing int string string
  | LogCompletedProcessing int
  | LogUnsupportedType string
  | LogFailedOpen string
  | LogFailedSaveThumbnail string
  | LogFailedUpdateDB int
  | LogFailedUpdateFTS int
  | LogOCRFailed string
  | LogFailedExtractFrame string
  | LogFailedInsertFTS
  | LogUpdatingTags int string
  | LogFailedUpdateMediaTags
  | LogFailedUpdateFTSTags int
  | LogFTSQuery string
  | LogFTSQueryError
  | LogMatchingIds "int list"
  | LogReturning nat

text \<open>
  What the program does to the world outside its memory, in the order it does it: a log
  line, an SQL statement sent to the database (whether or not the database then executes
  it), an external command run with \<^verbatim>\<open>exec.Command(name, args...).Run()\<close>.
\<close>

datatype event =
    Log logline
  | Sql sql
  | Exec string "string list"

text \<open>
  The state the program works on: the two tables (rows in insertion order), the jobs sent
  on the channel \<^verbatim>\<open>jobQueue\<close> and not yet received, the files on disk, the database's
  \<^verbatim>\<open>CURRENT_TIMESTAMP\<close>, and the events so far.
\<close>

record state =
  media :: "Media list"
  media_fts :: "fts_row list"
  jobQueue :: "ProcessingJob list"
  files :: "string \<Rightarrow> content option"
  now :: string
  trace :: "event list"

text \<open>
  A Go \<^verbatim>\<open>error\<close> value: \<open>None\<close> is \<^verbatim>\<open>nil\<close>, \<open>Some msg\<close> is an error whose
  \<^verbatim>\<open>Error()\<close> is \<open>msg\<close>.
\<close>

type_synonym error = "string option"

text \<open>
  The outcomes of the calls a processing job makes outside the program. A job makes each
  call at most once, so one outcome for each call describes a run.
  \<^item> \<open>Save_err\<close>: the error \<^verbatim>\<open>imaging.Save\<close> returns;
  \<^item> \<open>tesseract\<close>: the standard output of \<^verbatim>\<open>tesseract <path> stdout -l eng\<close> when
    \<^verbatim>\<open>cmd.Run()\<close> returns no error, \<open>None\<close> when it returns one (non-zero exit, crash,
    missing binary);
  \<^item> \<open>TrimSpace\<close>: Go's \<^verbatim>\<open>strings.TrimSpace\<close>;
  \<^item> \<open>media_update_err\<close>, \<open>fts_update_err\<close>: the errors with which the database
    refuses the two \<^verbatim>\<open>DB.Exec\<close> calls of \<^verbatim>\<open>processImage\<close>;
  \<^item> \<open>ffmpeg_err\<close>: the error \<^verbatim>\<open>cmd.Run()\<close> returns for
    \<^verbatim>\<open>ffmpeg -i <path> -vframes 1 -q:v 2 <framePath>\<close> (non-zero exit, crash, missing
    binary);
  \<^item> \<open>ffmpeg_out\<close>: what that run has written at the frame path when it ends, \<open>None\<close>
    when it has written nothing there. The two are independent: a run that fails may have
    written a file, complete or partial, before it failed;
  \<^item> \<open>Remove_err\<close>: the error \<^verbatim>\<open>os.Remove\<close> returns.
\<close>

record world =
  Save_err :: error
  tesseract :: "string \<Rightarrow> string option"
  TrimSpace :: "string \<Rightarrow> string"
  media_update_err :: error
  fts_update_err :: error
  ffmpeg_err :: error
  ffmpeg_out :: "string \<Rightarrow> content option"
  Remove_err :: error

section \<open>Library functions\<close>

text \<open>\<^verbatim>\<open>strings.HasPrefix(s, prefix)\<close>\<close>

definition HasPrefix :: "string \<Rightarrow> string \<Rightarrow> bool" where
  "HasPrefix s p = (take (length p) s = p)"

text \<open>\<^verbatim>\<open>strconv.FormatInt(i, 10)\<close>: the decimal digits, after a minus sign when negative.\<close>

fun digits :: "nat \<Rightarrow> string" where
  "digits n = (if n < 10 then [''0123456789'' ! n]
               else digits (n div 10) @ [''0123456789'' ! (n mod 10)])"

declare digits.simps [simp del]

definition FormatInt :: "int \<Rightarrow> string" where
  "FormatInt i = (if i < 0 then CHR ''-'' # digits (nat (- i)) else digits (nat i))"

text \<open>
  Modelled from the spec: \<^verbatim>\<open>imaging.Resize(img, width, height, filter)\<close> belongs to the
  library \<^verbatim>\<open>github.com/disintegration/imaging\<close>, which is not part of the sources. The spec
  says the thumbnail has the fixed target width and keeps the aspect ratio, with the
  other side rounded (300\<times>200 gives 200\<times>133). A side given as 0 is computed from the
  other one, rounded to the nearest integer and at least 1; the filter decides the pixel
  values only.
\<close>

definition round_div :: "int \<Rightarrow> int \<Rightarrow> int" where
  "round_div a b = (2 * a + b) div (2 * b)"

definition Resize :: "image \<Rightarrow> int \<Rightarrow> int \<Rightarrow> ResampleFilter \<Rightarrow> image" where
  "Resize img width height flt =
     (if width < 0 \<or> height < 0 then Image 0 0
      else if width = 0 \<and> height = 0 then Image 0 0
      else if Dx img \<le> 0 \<or> Dy img \<le> 0 then Image 0 0
      else let dstW = (if width = 0 then max 1 (round_div (height * Dx img) (Dy img)) else width);
               dstH = (if height = 0 then max 1 (round_div (dstW * Dy img) (Dx img)) else height)
           in Image dstW dstH)"

text \<open>\<^verbatim>\<open>filepath.Ext(path)\<close>: the suffix that starts at the last dot of the last element of
  the path, empty when that element has no dot.\<close>

definition Ext :: "string \<Rightarrow> string" where
  "Ext path =
     (let r = takeWhile (\<lambda>c. c \<noteq> CHR ''/'') (rev path)
      in if CHR ''.'' \<in> set r then CHR ''.'' # rev (takeWhile (\<lambda>c. c \<noteq> CHR ''.'') r) else [])"

text \<open>
  \<^verbatim>\<open>strconv.ParseInt(s, 10, 64)\<close>: an optional sign and at least one decimal digit, with a
  value in the range of \<^verbatim>\<open>int64\<close>; \<open>None\<close> when it returns an error.
\<close>

definition digit_val :: "char \<Rightarrow> nat option" where
  "digit_val = map_of [(CHR ''0'', 0), (CHR ''1'', 1), (CHR ''2'', 2), (CHR ''3'', 3), (CHR ''4'', 4),
                       (CHR ''5'', 5), (CHR ''6'', 6), (CHR ''7'', 7), (CHR ''8'', 8), (CHR ''9'', 9)]"

fun parse_digits :: "nat \<Rightarrow> string \<Rightarrow> nat option" where
  "parse_digits acc [] = Some acc"
| "parse_digits acc (c # cs) =
     (case digit_val c of None \<Rightarrow> None | Some d \<Rightarrow> parse_digits (acc * 10 + d) cs)"

definition ParseInt :: "string \<Rightarrow> int option" where
  "ParseInt s =
     (case s of
        [] \<Rightarrow> None
      | c # cs \<Rightarrow>
          let neg = (c = CHR ''-'');
              ds = (if c = CHR ''+'' \<or> c = CHR ''-'' then cs else s)
          in if ds = [] then None
             else (case parse_digits 0 ds of
                     None \<Rightarrow> None
                   | Some un \<Rightarrow>
                       if \<not> neg \<and> un \<ge> 2 ^ 63 then None
                       else if neg \<and> un > 2 ^ 63 then None
                       else Some (if neg then - int un else int un)))"

section \<open>Effects\<close>

definition emit :: "event \<Rightarrow> state \<Rightarrow> state" where
  "emit e s = s\<lparr>trace := trace s @ [e]\<rparr>"

text \<open>\<^verbatim>\<open>imaging.Open(path)\<close>: the decoded image, or an error (\<open>None\<close>) when the file is
  missing or does not decode.\<close>

definition imaging_Open :: "state \<Rightarrow> string \<Rightarrow> image option" where
  "imaging_Open s path = (case files s path of Some (ImageFile img) \<Rightarrow> Some img | _ \<Rightarrow> None)"

text \<open>\<^verbatim>\<open>os.Remove(name)\<close>; the caller ignores the error.\<close>

definition os_Remove :: "error \<Rightarrow> string \<Rightarrow> state \<Rightarrow> state" where
  "os_Remove err name s = (if err = None then s\<lparr>files := (files s)(name := None)\<rparr> else s)"

text \<open>
  What a statement does to the tables when the database executes it. An UPDATE changes
  the rows its WHERE clause selects, which may be none. \<^verbatim>\<open>media.id\<close> is
  \<^verbatim>\<open>INTEGER PRIMARY KEY\<close>: an INSERT that gives no id gets one more than the largest id in
  the table; \<^verbatim>\<open>created_at\<close> defaults to \<^verbatim>\<open>CURRENT_TIMESTAMP\<close>, and the columns the INSERT
  does not name and that have no default are NULL. The SELECT statements change nothing.
\<close>

definition next_id :: "Media list \<Rightarrow> int" where
  "next_id ms = (if ms = [] then 1 else Max (set (map ID ms)) + 1)"

fun run_sql :: "sql \<Rightarrow> state \<Rightarrow> state" where
  "run_sql (InsertMedia path mime size_bytes tags status) s =
     s\<lparr>media := media s @
        [\<lparr>ID = next_id (media s), Path = path, Thumb = None, Mime = mime, Width = None,
          Height = None, SizeBytes = size_bytes, Tags = tags, OcrText = None,
          ProcessingStatus = status, CreatedAt = now s\<rparr>]\<rparr>"
| "run_sql (InsertFts rid ocr tags path) s =
     s\<lparr>media_fts := media_fts s @
        [\<lparr>rowid = rid, fts_id = None, fts_ocr_text = ocr, fts_tags = tags, fts_path = path\<rparr>]\<rparr>"
| "run_sql (UpdateMediaTags tags i) s =
     s\<lparr>media := map (\<lambda>m. if ID m = i then m\<lparr>Tags := tags\<rparr> else m) (media s)\<rparr>"
| "run_sql (UpdateFtsTags tags i) s =
     s\<lparr>media_fts := map (\<lambda>r. if rowid r = i then r\<lparr>fts_tags := tags\<rparr> else r) (media_fts s)\<rparr>"
| "run_sql (UpdateMediaDerived thumb width height ocr i) s =
     s\<lparr>media := map (\<lambda>m. if ID m = i
                          then m\<lparr>Thumb := Some thumb, Width := Some width, Height := Some height,
                                 OcrText := Some ocr, ProcessingStatus := ''completed''\<rparr>
                          else m) (media s)\<rparr>"
| "run_sql (UpdateFtsOcr ocr i) s =
     s\<lparr>media_fts := map (\<lambda>r. if fts_id r = Some i then r\<lparr>fts_ocr_text := ocr\<rparr> else r)
                         (media_fts s)\<rparr>"
| "run_sql SelectAllMedia s = s"
| "run_sql (SelectFtsMatch q) s = s"
| "run_sql (SelectMediaIn ids) s = s"

text \<open>The one constraint a statement of the program can violate: a row of \<^verbatim>\<open>media_fts\<close>
  inserted with an explicit \<^verbatim>\<open>rowid\<close> that is already taken.\<close>

fun violates :: "sql \<Rightarrow> state \<Rightarrow> bool" where
  "violates (InsertFts rid ocr tags path) s = (rid \<in> set (map rowid (media_fts s)))"
| "violates q s = False"

text \<open>
  \<^verbatim>\<open>DB.Exec(stmt, args...)\<close>: the statement is sent to the database. \<open>refusal\<close> is the
  error with which the database refuses it for a reason outside the model (locked,
  unreachable, schema mismatch); otherwise the statement is executed unless it violates a
  constraint. The result is the error returned and the new state.
\<close>

definition DB_Exec :: "error \<Rightarrow> sql \<Rightarrow> state \<Rightarrow> error \<times> state" where
  "DB_Exec refusal q s =
     (let s' = emit (Sql q) s
      in if refusal \<noteq> None then (refusal, s')
         else if violates q s' then (Some ''constraint failed'', s')
         else (None, run_sql q s'))"

section \<open>The processing pipeline\<close>

text \<open>\<^verbatim>\<open>func extractOCR(imagePath string) string\<close>\<close>

definition extractOCR :: "world \<Rightarrow> string \<Rightarrow> state \<Rightarrow> string \<times> state" where
  "extractOCR w imagePath s =
     (let s1 = emit (Exec ''tesseract'' [imagePath, ''stdout'', ''-l'', ''eng'']) s
      in case tesseract w imagePath of
           None \<Rightarrow> ('''', emit (Log (LogOCRFailed imagePath)) s1)
         | Some out \<Rightarrow> (TrimSpace w out, s1))"

text \<open>\<^verbatim>\<open>func processImage(id int64, path string)\<close>\<close>

definition thumbPath :: "int \<Rightarrow> string" where
  "thumbPath i = ''static/'' @ FormatInt i @ ''_thumb.jpg''"

definition processImage :: "world \<Rightarrow> int \<Rightarrow> string \<Rightarrow> state \<Rightarrow> state" where
  "processImage w i path s =
     (case imaging_Open s path of
        None \<Rightarrow> emit (Log (LogFailedOpen path)) s
      | Some src \<Rightarrow>
          let thumb = Resize src 200 0 Lanczos
          in if Save_err w \<noteq> None then emit (Log (LogFailedSaveThumbnail (thumbPath i))) s
             else
               let s1 = s\<lparr>files := (files s)(thumbPath i \<mapsto> ImageFile thumb)\<rparr>;
                   width = Dx src;
                   height = Dy src;
                   (ocrText, s2) = extractOCR w path s1;
                   (err, s3) = DB_Exec (media_update_err w)
                                 (UpdateMediaDerived (thumbPath i) width height ocrText i) s2;
                   s4 = (if err \<noteq> None then emit (Log (LogFailedUpdateDB i)) s3 else s3);
                   (err', s5) = DB_Exec (fts_update_err w) (UpdateFtsOcr ocrText i) s4
               in if err' \<noteq> None then emit (Log (LogFailedUpdateFTS i)) s5 else s5)"

text \<open>\<^verbatim>\<open>func processVideoOrGif(id int64, path string)\<close>\<close>

definition framePath :: "int \<Rightarrow> string" where
  "framePath i = ''static/'' @ FormatInt i @ ''_frame.jpg''"

definition processVideoOrGif :: "world \<Rightarrow> int \<Rightarrow> string \<Rightarrow> state \<Rightarrow> state" where
  "processVideoOrGif w i path s =
     (let s1 = emit (Exec ''ffmpeg''
                  [''-i'', path, ''-vframes'', ''1'', ''-q:v'', ''2'', framePath i]) s;
          s2 = (case ffmpeg_out w path of
                  None \<Rightarrow> s1
                | Some frame \<Rightarrow> s1\<lparr>files := (files s1)(framePath i \<mapsto> frame)\<rparr>)
      in if ffmpeg_err w \<noteq> None then emit (Log (LogFailedExtractFrame path)) s2
         else
           let s3 = processImage w i (framePath i) s2
           in os_Remove (Remove_err w) (framePath i) s3)"

text \<open>\<^verbatim>\<open>func processMedia(id int64, path, mimeType string)\<close>; the deferred log line is
  written when the function returns.\<close>

definition processMedia :: "world \<Rightarrow> int \<Rightarrow> string \<Rightarrow> string \<Rightarrow> state \<Rightarrow> state" where
  "processMedia w i path mimeType s =
     (let s1 = emit (Log (LogStartingProcessing i path mimeType)) s;
          s2 = (if HasPrefix mimeType ''image/'' then processImage w i path s1
                else if HasPrefix mimeType ''video/'' \<or> mimeType = ''image/gif''
                     then processVideoOrGif w i path s1
                else emit (Log (LogUnsupportedType mimeType)) s1)
      in emit (Log (LogCompletedProcessing i)) s2)"

text \<open>
  One turn of the loop \<^verbatim>\<open>for job := range jobQueue { processMedia(...) }\<close> of a worker:
  the oldest job is received from the channel and processed. With no job in the channel
  the worker waits, and nothing changes.
\<close>

definition workerStep :: "world \<Rightarrow> nat \<Rightarrow> state \<Rightarrow> state" where
  "workerStep w workerID s =
     (case jobQueue s of
        [] \<Rightarrow> s
      | job # rest \<Rightarrow>
          processMedia w (JobID job) (JobPath job) (JobMimeType job)
            (emit (Log (LogWorkerProcessing workerID (JobID job))) (s\<lparr>jobQueue := rest\<rparr>)))"

section \<open>The request handlers\<close>

text \<open>What a handler writes to the client: \<^verbatim>\<open>c.JSON(status, gin.H{key: value})\<close> or
  \<^verbatim>\<open>c.String(status, text)\<close>.\<close>

datatype response = JSON nat "(string \<times> string) list" | Text nat string

text \<open>
  An uploaded file (\<^verbatim>\<open>multipart.FileHeader\<close>) with its name, its declared size and its
  content, and the outcomes of the calls \<^verbatim>\<open>uploadHandler\<close> makes for it outside the
  program: the UUID drawn for its name on disk, the errors of \<^verbatim>\<open>c.SaveUploadedFile\<close> and
  \<^verbatim>\<open>os.Stat\<close>, the size \<^verbatim>\<open>os.Stat\<close> reports, the errors with which the database refuses
  the two INSERT statements, the error of \<^verbatim>\<open>res.LastInsertId()\<close>, and the value of
  \<^verbatim>\<open>CURRENT_TIMESTAMP\<close> at the INSERT.
\<close>

record FileHeader =
  Filename :: string
  Size :: int
  Data :: content

record upload_io =
  new_uuid :: string
  save_err :: error
  stat_err :: error
  stat_size :: int
  insert_err :: error
  last_id_err :: error
  fts_insert_err :: error
  clock :: string

text \<open>The request of \<^verbatim>\<open>POST /upload\<close>: the error of \<^verbatim>\<open>c.MultipartForm()\<close>, the files of the
  form field \<^verbatim>\<open>files\<close> and the form field \<^verbatim>\<open>tags\<close>.\<close>

record upload_request =
  form_err :: error
  form_files :: "(FileHeader \<times> upload_io) list"
  form_tags :: string

definition allowedTypes :: "string list" where
  "allowedTypes = [''image/jpeg'', ''image/png'', ''image/gif'', ''image/webp'',
                   ''video/mp4'', ''video/webm'']"

definition maxSize :: int where
  "maxSize = 10 * 2 ^ 20"

text \<open>The MIME type \<^verbatim>\<open>uploadHandler\<close> gives a file name; \<open>tbe\<close> is
  \<^verbatim>\<open>mime.TypeByExtension\<close>, a table of the Go library and the operating system.\<close>

definition mimeTypeOf :: "(string \<Rightarrow> string) \<Rightarrow> string \<Rightarrow> string" where
  "mimeTypeOf tbe ext = (let mimeType = tbe ext
                         in if mimeType = '''' then ''application/octet-stream'' else mimeType)"

text \<open>The first loop of \<^verbatim>\<open>uploadHandler\<close>: the response that rejects the request, if any
  file is of a type not allowed or too large.\<close>

fun validate :: "(string \<Rightarrow> string) \<Rightarrow> (FileHeader \<times> upload_io) list \<Rightarrow> response option" where
  "validate tbe [] = None"
| "validate tbe ((file, io) # rest) =
     (let mimeType = mimeTypeOf tbe (Ext (Filename file))
      in if mimeType \<notin> set allowedTypes
         then Some (JSON 400 [(''error'', ''Unsupported file type: '' @ mimeType)])
         else if Size file > maxSize
         then Some (JSON 400 [(''error'', ''File too large (max 10MB)'')])
         else validate tbe rest)"


text \<open>\<^verbatim>\<open>res.LastInsertId()\<close> after an INSERT into \<^verbatim>\<open>media\<close> that was executed.\<close>

definition LastInsertId :: "state \<Rightarrow> int" where
  "LastInsertId s = ID (last (media s))"

text \<open>The second loop of \<^verbatim>\<open>uploadHandler\<close>. The send on the channel completes with the job
  in the channel (when the channel is full, the send first waits for a free slot).\<close>

fun uploadFiles ::
  "(string \<Rightarrow> string) \<Rightarrow> string \<Rightarrow> (FileHeader \<times> upload_io) list \<Rightarrow> state \<Rightarrow> response \<times> state"
where
  "uploadFiles tbe tags [] s = (JSON 200 [(''message'', ''uploaded'')], s)"
| "uploadFiles tbe tags ((file, io) # rest) s =
     (let ext = Ext (Filename file);
          path = ''storage/'' @ new_uuid io @ ext
      in case save_err io of
           Some e \<Rightarrow> (JSON 500 [(''error'', e)], s)
         | None \<Rightarrow>
             (let s1 = s\<lparr>files := (files s)(path \<mapsto> Data file)\<rparr>;
                  mimeType = mimeTypeOf tbe ext
              in (case stat_err io of
                    Some e \<Rightarrow> (JSON 500 [(''error'', e)], s1)
                  | None \<Rightarrow>
                      (let sizeBytes = stat_size io;
                           (err, s2) = DB_Exec (insert_err io)
                                         (InsertMedia path mimeType sizeBytes tags ''processing'')
                                         (s1\<lparr>now := clock io\<rparr>)
                       in (case err of
                             Some e \<Rightarrow> (JSON 500 [(''error'', e)], s2)
                           | None \<Rightarrow>
                               (case last_id_err io of
                                  Some e \<Rightarrow> (JSON 500 [(''error'', e)], s2)
                                | None \<Rightarrow>
                                    (let i = LastInsertId s2;
                                         (err', s3) = DB_Exec (fts_insert_err io)
                                                        (InsertFts i '''' tags path) s2;
                                         s4 = (if err' \<noteq> None
                                               then emit (Log LogFailedInsertFTS) s3 else s3);
                                         s5 = s4\<lparr>jobQueue := jobQueue s4 @
                                                 [\<lparr>JobID = i, JobPath = path,
                                                   JobMimeType = mimeType\<rparr>]\<rparr>
                                     in uploadFiles tbe tags rest s5)))))))"

text \<open>\<^verbatim>\<open>func uploadHandler(c *gin.Context)\<close>\<close>

definition uploadHandler :: "(string \<Rightarrow> string) \<Rightarrow> upload_request \<Rightarrow> state \<Rightarrow> response \<times> state" where
  "uploadHandler tbe req s =
     (case form_err req of
        Some e \<Rightarrow> (JSON 400 [(''error'', e)], s)
      | None \<Rightarrow>
          if form_files req = [] then (JSON 400 [(''error'', ''No files selected'')], s)
          else (case validate tbe (form_files req) of
                  Some r \<Rightarrow> (r, s)
                | None \<Rightarrow> uploadFiles tbe (form_tags req) (form_files req) s))"

text \<open>
  \<^verbatim>\<open>func updateTagsHandler(c *gin.Context)\<close>, for the path parameter \<^verbatim>\<open>id\<close> and the form
  field \<^verbatim>\<open>tags\<close>; \<open>refusal1\<close> and \<open>refusal2\<close> are the errors with which the database
  refuses the first and the second UPDATE.
\<close>

definition updateTagsHandler ::
  "error \<Rightarrow> error \<Rightarrow> string \<Rightarrow> string \<Rightarrow> state \<Rightarrow> response \<times> state"
where
  "updateTagsHandler refusal1 refusal2 idStr tags s =
     (case ParseInt idStr of
        None \<Rightarrow> (JSON 400 [(''error'', ''Invalid id'')], s)
      | Some i \<Rightarrow>
          let s1 = emit (Log (LogUpdatingTags i tags)) s;
              (err, s2) = DB_Exec refusal1 (UpdateMediaTags tags i) s1
          in (case err of
                Some e \<Rightarrow> (JSON 500 [(''error'', e)], emit (Log LogFailedUpdateMediaTags) s2)
              | None \<Rightarrow>
                  (let (err', s3) = DB_Exec refusal2 (UpdateFtsTags tags i) s2;
                       s4 = (if err' \<noteq> None then emit (Log (LogFailedUpdateFTSTags i)) s3
                             else s3)
                   in (Text 200 tags, s4))))"

text \<open>
  \<^verbatim>\<open>ORDER BY created_at DESC\<close>. The column is text and is compared byte by byte. Rows
  with equal keys come in the order of the table scan, which is the order of their ids, as
  SQLite returns them: the sort is stable on the table read backwards, and its result is
  reversed.
\<close>

definition order_by_created_at_desc :: "Media list \<Rightarrow> Media list" where
  "order_by_created_at_desc ms = rev (sort_key CreatedAt (rev ms))"

text \<open>
  The result of \<^verbatim>\<open>getMedia\<close>: the slice with a nil error, an error, or a panic. In the
  branch of a non-empty query, \<^verbatim>\<open>ftsRows, err := ...\<close> declares a new \<^verbatim>\<open>err\<close> for that
  block, and the error of the second query is assigned to it: the check
  \<^verbatim>\<open>if err != nil\<close> after the block reads the outer \<^verbatim>\<open>err\<close>, which is still nil, and the
  function goes on with a nil \<^verbatim>\<open>rows\<close>, whose \<^verbatim>\<open>Next()\<close> panics.
\<close>

datatype getMedia_result = Returned "Media list" | Failed string | Panicked

text \<open>
  \<^verbatim>\<open>func getMedia(query string) ([]Media, error)\<close>. \<open>matches\<close> is the MATCH operator of the
  full-text index (which rows of \<^verbatim>\<open>media_fts\<close> a query matches); \<open>fts_refusal\<close> and
  \<open>media_refusal\<close> are the errors of the query on \<^verbatim>\<open>media_fts\<close> and of the query on
  \<^verbatim>\<open>media\<close>.
\<close>

definition getMedia ::
  "(string \<Rightarrow> fts_row \<Rightarrow> bool) \<Rightarrow> error \<Rightarrow> error \<Rightarrow> string \<Rightarrow> state \<Rightarrow> getMedia_result \<times> state"
where
  "getMedia matches fts_refusal media_refusal query s =
     (if query = '''' then
        let s1 = emit (Sql SelectAllMedia) s
        in case media_refusal of
             Some e \<Rightarrow> (Failed e, s1)
           | None \<Rightarrow>
               let rows = order_by_created_at_desc (media s1)
               in (Returned rows, emit (Log (LogReturning (length rows))) s1)
      else
        let s1 = emit (Log (LogFTSQuery query)) s;
            s2 = emit (Sql (SelectFtsMatch query)) s1
        in (case fts_refusal of
              Some e \<Rightarrow> (Failed e, emit (Log LogFTSQueryError) s2)
            | None \<Rightarrow>
                (let ids = map rowid (filter (matches query) (media_fts s2));
                     s3 = emit (Log (LogMatchingIds ids)) s2
                 in if length ids = 0 then (Returned [], s3)
                    else
                      (let s4 = emit (Sql (SelectMediaIn ids)) s3
                       in (case media_refusal of
                             Some e \<Rightarrow> (Panicked, s4)
                           | None \<Rightarrow>
                               (let rows = order_by_created_at_desc
                                             (filter (\<lambda>m. ID m \<in> set ids) (media s4))
                                in (Returned rows,
                                    emit (Log (LogReturning (length rows))) s4)))))))"

section \<open>Example inputs\<close>

text \<open>
  Concrete inputs on which the theorems below are instantiated: a database with no rows
  and an empty disk, an environment in which every external call succeeds, a MIME table
  with three extensions, and a request that uploads the 300\<times>200 image \<^verbatim>\<open>cat.png\<close>.
\<close>

definition empty_state :: state where
  "empty_state = \<lparr>media = [], media_fts = [], jobQueue = [], files = (\<lambda>p. None),
                   now = ''2024-05-01 10:00:00'', trace = []\<rparr>"

definition quiet_world :: world where
  "quiet_world = \<lparr>Save_err = None, tesseract = (\<lambda>p. Some ''hello''), TrimSpace = (\<lambda>t. t),
                   media_update_err = None, fts_update_err = None,
                   ffmpeg_err = None, ffmpeg_out = (\<lambda>p. Some (ImageFile (Image 640 480))),
                   Remove_err = None\<rparr>"

definition example_tbe :: "string \<Rightarrow> string" where
  "example_tbe ext = (if ext = ''.png'' then ''image/png''
                      else if ext = ''.gif'' then ''image/gif''
                      else if ext = ''.mp4'' then ''video/mp4'' else '''')"

definition quiet_io :: "string \<Rightarrow> upload_io" where
  "quiet_io u = \<lparr>new_uuid = u, save_err = None, stat_err = None, stat_size = 2048,
                  insert_err = None, last_id_err = None, fts_insert_err = None,
                  clock = ''2024-05-01 10:00:00''\<rparr>"

definition png_request :: upload_request where
  "png_request = \<lparr>form_err = None,
      form_files = [(\<lparr>Filename = ''cat.png'', Size = 2048, Data = ImageFile (Image 300 200)\<rparr>,
                     quiet_io ''u1'')],
      form_tags = ''cats''\<rparr>"

definition png_uploaded :: state where
  "png_uploaded = snd (uploadHandler example_tbe png_request empty_state)"

definition mp4_request :: upload_request where
  "mp4_request = \<lparr>form_err = None,
      form_files = [(\<lparr>Filename = ''clip.mp4'', Size = 2048, Data = OtherFile\<rparr>, quiet_io ''u2'')],
      form_tags = ''clips''\<rparr>"

definition mp4_uploaded :: state where
  "mp4_uploaded = snd (uploadHandler example_tbe mp4_request empty_state)"

text \<open>A request that uploads both files, the second seven seconds after the first, and a
  MATCH operator that selects the index rows whose tags are the query.\<close>

definition two_request :: upload_request where
  "two_request = \<lparr>form_err = None,
      form_files = [(\<lparr>Filename = ''cat.png'', Size = 2048, Data = ImageFile (Image 300 200)\<rparr>,
                     quiet_io ''u1''),
                    (\<lparr>Filename = ''clip.mp4'', Size = 2048, Data = OtherFile\<rparr>,
                     (quiet_io ''u2'')\<lparr>clock := ''2024-05-01 10:00:07''\<rparr>)],
      form_tags = ''cats''\<rparr>"

definition two_uploaded :: state where
  "two_uploaded = snd (uploadHandler example_tbe two_request empty_state)"

definition tags_match :: "string \<Rightarrow> fts_row \<Rightarrow> bool" where
  "tags_match q r = (fts_tags r = q)"

section \<open>Basic facts about the effects\<close>

lemma emit_fields [simp]:
  "media (emit e s) = media s"
  "media_fts (emit e s) = media_fts s"
  "jobQueue (emit e s) = jobQueue s"
  "files (emit e s) = files s"
  "now (emit e s) = now s"
  "trace (emit e s) = trace s @ [e]"
  by (simp_all add: emit_def)

lemma run_sql_keeps [simp]:
  "jobQueue (run_sql q s) = jobQueue s"
  "files (run_sql q s) = files s"
  "now (run_sql q s) = now s"
  "trace (run_sql q s) = trace s"
  by (cases q; simp)+

lemma DB_Exec_keeps [simp]:
  "jobQueue (snd (DB_Exec r q s)) = jobQueue s"
  "files (snd (DB_Exec r q s)) = files s"
  "now (snd (DB_Exec r q s)) = now s"
  "trace (snd (DB_Exec r q s)) = trace s @ [Sql q]"
  by (simp_all add: DB_Exec_def Let_def)

lemma ball_map_if:
  "(\<forall>m \<in> set (map (\<lambda>x. if c x then f x else x) xs). P m) \<longleftrightarrow>
   (\<forall>x \<in> set xs. (c x \<longrightarrow> P (f x)) \<and> (\<not> c x \<longrightarrow> P x))"
  by (induction xs) auto

lemma extractOCR_keeps [simp]:
  "media (snd (extractOCR w p s)) = media s"
  "media_fts (snd (extractOCR w p s)) = media_fts s"
  "jobQueue (snd (extractOCR w p s)) = jobQueue s"
  "files (snd (extractOCR w p s)) = files s"
  by (simp_all add: extractOCR_def Let_def split: option.splits)

lemma extractOCR_text:
  "fst (extractOCR w p s) = (case tesseract w p of None \<Rightarrow> '''' | Some out \<Rightarrow> TrimSpace w out)"
  by (simp add: extractOCR_def Let_def split: option.splits)

lemma extractOCR_trace:
  "trace (snd (extractOCR w p s)) =
     trace s @ Exec ''tesseract'' [p, ''stdout'', ''-l'', ''eng''] #
       (if tesseract w p = None then [Log (LogOCRFailed p)] else [])"
  by (simp add: extractOCR_def Let_def split: option.splits)

subsection \<open>The example inputs, evaluated\<close>

lemma quiet_world_fields [simp]:
  "Save_err quiet_world = None"
  "media_update_err quiet_world = None"
  "fts_update_err quiet_world = None"
  "Remove_err quiet_world = None"
  "tesseract quiet_world p = Some ''hello''"
  "TrimSpace quiet_world t = t"
  "ffmpeg_err quiet_world = None"
  "ffmpeg_out quiet_world p = Some (ImageFile (Image 640 480))"
  by (simp_all add: quiet_world_def)

lemma png_uploaded_fields:
  "media png_uploaded =
     [\<lparr>ID = 1, Path = ''storage/u1.png'', Thumb = None, Mime = ''image/png'', Width = None,
       Height = None, SizeBytes = 2048, Tags = ''cats'', OcrText = None,
       ProcessingStatus = ''processing'', CreatedAt = ''2024-05-01 10:00:00''\<rparr>]"
  "media_fts png_uploaded =
     [\<lparr>rowid = 1, fts_id = None, fts_ocr_text = '''', fts_tags = ''cats'',
       fts_path = ''storage/u1.png''\<rparr>]"
  "jobQueue png_uploaded =
     [\<lparr>JobID = 1, JobPath = ''storage/u1.png'', JobMimeType = ''image/png''\<rparr>]"
  "files png_uploaded ''storage/u1.png'' = Some (ImageFile (Image 300 200))"
  by (simp_all add: png_uploaded_def uploadHandler_def png_request_def quiet_io_def
        empty_state_def example_tbe_def mimeTypeOf_def allowedTypes_def maxSize_def
        Ext_def DB_Exec_def LastInsertId_def next_id_def Let_def)

lemma mp4_uploaded_fields:
  "map ID (media mp4_uploaded) = [1]"
  "map ProcessingStatus (media mp4_uploaded) = [''processing'']"
  "jobQueue mp4_uploaded =
     [\<lparr>JobID = 1, JobPath = ''storage/u2.mp4'', JobMimeType = ''video/mp4''\<rparr>]"
  by (simp_all add: mp4_uploaded_def uploadHandler_def mp4_request_def quiet_io_def
        empty_state_def example_tbe_def mimeTypeOf_def allowedTypes_def maxSize_def
        Ext_def DB_Exec_def LastInsertId_def next_id_def Let_def)

lemma two_uploaded_fields:
  "media two_uploaded =
     [\<lparr>ID = 1, Path = ''storage/u1.png'', Thumb = None, Mime = ''image/png'', Width = None,
       Height = None, SizeBytes = 2048, Tags = ''cats'', OcrText = None,
       ProcessingStatus = ''processing'', CreatedAt = ''2024-05-01 10:00:00''\<rparr>,
      \<lparr>ID = 2, Path = ''storage/u2.mp4'', Thumb = None, Mime = ''video/mp4'', Width = None,
       Height = None, SizeBytes = 2048, Tags = ''cats'', OcrText = None,
       ProcessingStatus = ''processing'', CreatedAt = ''2024-05-01 10:00:07''\<rparr>]"
  "media_fts two_uploaded =
     [\<lparr>rowid = 1, fts_id = None, fts_ocr_text = '''', fts_tags = ''cats'',
       fts_path = ''storage/u1.png''\<rparr>,
      \<lparr>rowid = 2, fts_id = None, fts_ocr_text = '''', fts_tags = ''cats'',
       fts_path = ''storage/u2.mp4''\<rparr>]"
  by (simp_all add: two_uploaded_def uploadHandler_def two_request_def quiet_io_def
        empty_state_def example_tbe_def mimeTypeOf_def allowedTypes_def maxSize_def
        Ext_def DB_Exec_def LastInsertId_def next_id_def Let_def)

lemma png_open: "imaging_Open png_uploaded ''storage/u1.png'' = Some (Image 300 200)"
  by (simp add: imaging_Open_def png_uploaded_fields)

section \<open>Dispatch by MIME type\<close>

lemma HasPrefix_image_gif: "HasPrefix ''image/gif'' ''image/''"
  by (simp add: HasPrefix_def)

text \<open>
  Claim C1. The dispatcher is to send \<^verbatim>\<open>image/gif\<close> to the video frame extractor.
  \<^verbatim>\<open>processMedia\<close> tests the prefix \<^verbatim>\<open>image/\<close> first, and \<^verbatim>\<open>image/gif\<close> has it: for every
  job of that type the function does what \<^verbatim>\<open>processImage\<close> does on the job's own path,
  between its two log lines. The second branch, which names \<^verbatim>\<open>image/gif\<close>, is never
  reached for it.
\<close>

theorem processMedia_gif_goes_to_processImage:
  "processMedia w i path ''image/gif'' s =
     emit (Log (LogCompletedProcessing i))
       (processImage w i path (emit (Log (LogStartingProcessing i path ''image/gif'')) s))"
  by (simp add: processMedia_def HasPrefix_image_gif)

text \<open>The three branches of the dispatcher, in the order the code tests them.\<close>

lemma processMedia_routes:
  "HasPrefix mimeType ''image/'' \<Longrightarrow>
     processMedia w i path mimeType s =
       emit (Log (LogCompletedProcessing i))
         (processImage w i path (emit (Log (LogStartingProcessing i path mimeType)) s))"
  "\<not> HasPrefix mimeType ''image/'' \<Longrightarrow> HasPrefix mimeType ''video/'' \<Longrightarrow>
     processMedia w i path mimeType s =
       emit (Log (LogCompletedProcessing i))
         (processVideoOrGif w i path (emit (Log (LogStartingProcessing i path mimeType)) s))"
  "\<not> HasPrefix mimeType ''image/'' \<Longrightarrow> \<not> HasPrefix mimeType ''video/'' \<Longrightarrow>
     processMedia w i path mimeType s =
       emit (Log (LogCompletedProcessing i))
         (emit (Log (LogUnsupportedType mimeType))
            (emit (Log (LogStartingProcessing i path mimeType)) s))"
  by (auto simp: processMedia_def Let_def HasPrefix_def)

section \<open>The image processor\<close>

lemma processImage_abort:
  assumes "imaging_Open s path = None \<or> Save_err w \<noteq> None"
  shows "\<exists>l. processImage w i path s = emit (Log l) s"
  using assms by (auto simp: processImage_def Let_def split: option.splits)

lemma processImage_files:
  "p \<noteq> thumbPath i \<Longrightarrow> files (processImage w i path s) p = files s p"
  by (simp add: processImage_def Let_def split_def split: option.splits)

lemma processImage_thumb_file:
  assumes "imaging_Open s path = Some src" "Save_err w = None"
  shows "files (processImage w i path s) (thumbPath i) = Some (ImageFile (Resize src 200 0 Lanczos))"
  using assms by (simp add: processImage_def Let_def split_def)

lemma processImage_jobQueue [simp]:
  "jobQueue (processImage w i path s) = jobQueue s"
  by (simp add: processImage_def Let_def split_def split: option.splits)

lemma processImage_media:
  assumes "imaging_Open s path = Some src" "Save_err w = None" "media_update_err w = None"
  shows "media (processImage w i path s) =
         map (\<lambda>m. if ID m = i
                   then m\<lparr>Thumb := Some (thumbPath i), Width := Some (Dx src),
                          Height := Some (Dy src), OcrText := Some (fst (extractOCR w path s)),
                          ProcessingStatus := ''completed''\<rparr>
                   else m) (media s)"
  using assms
  by (simp add: processImage_def DB_Exec_def Let_def split_def extractOCR_text split: option.splits)

lemma processImage_media_ids:
  assumes "imaging_Open s path = Some src" "Save_err w = None" "media_update_err w = None"
  shows "map ID (media (processImage w i path s)) = map ID (media s)"
  by (simp add: processImage_media [OF assms] o_def if_distrib cong: if_cong)

lemma processImage_trace:
  assumes "imaging_Open s path = Some src" "Save_err w = None"
  shows "trace (processImage w i path s) =
           trace s @ Exec ''tesseract'' [path, ''stdout'', ''-l'', ''eng''] #
             (if tesseract w path = None then [Log (LogOCRFailed path)] else []) @
             Sql (UpdateMediaDerived (thumbPath i) (Dx src) (Dy src) (fst (extractOCR w path s)) i) #
             (if media_update_err w \<noteq> None then [Log (LogFailedUpdateDB i)] else []) @
             Sql (UpdateFtsOcr (fst (extractOCR w path s)) i) #
             (if fts_update_err w \<noteq> None then [Log (LogFailedUpdateFTS i)] else [])"
  using assms
  by (simp add: processImage_def Let_def split_def extractOCR_text extractOCR_trace
        DB_Exec_def)

text \<open>
  The statement \<^verbatim>\<open>UPDATE media_fts SET ocr_text = ? WHERE id = ?\<close> selects rows by the
  declared column \<^verbatim>\<open>id\<close>. In a table whose rows all have that column NULL it selects no
  row, whatever the parameter.
\<close>

lemma processImage_index_stale:
  assumes "\<forall>r \<in> set (media_fts s). fts_id r = None"
  shows "media_fts (processImage w i path s) = media_fts s"
proof -
  have "map (\<lambda>r. if fts_id r = Some i then r\<lparr>fts_ocr_text := t\<rparr> else r) (media_fts s)
          = media_fts s" for t
    using assms by (simp add: map_idI)
  then show ?thesis
    by (simp add: processImage_def DB_Exec_def Let_def split_def split: option.splits)
qed

text \<open>
  Claim C3. After an image job has succeeded, the index entry keyed by the job's id is to
  carry the \<^verbatim>\<open>ocr_text\<close> persisted on the record. On the code it does not: the upload of
  \<^verbatim>\<open>cat.png\<close> creates record 1 and the index row with \<^verbatim>\<open>rowid\<close> 1, whose column \<^verbatim>\<open>id\<close>
  is NULL; a worker then processes the job with an OCR result of \<^verbatim>\<open>hello\<close>. The record
  ends completed with that text, and the index row still has the empty text of its
  creation.
\<close>

theorem index_ocr_text_not_updated:
  "map ID (media (workerStep quiet_world 0 png_uploaded)) = [1] \<and>
   map OcrText (media (workerStep quiet_world 0 png_uploaded)) = [Some ''hello''] \<and>
   map ProcessingStatus (media (workerStep quiet_world 0 png_uploaded)) = [''completed''] \<and>
   map rowid (media_fts (workerStep quiet_world 0 png_uploaded)) = [1] \<and>
   map fts_ocr_text (media_fts (workerStep quiet_world 0 png_uploaded)) = ['''']"
proof -
  let ?s = "emit (Log (LogStartingProcessing 1 ''storage/u1.png'' ''image/png''))
             (emit (Log (LogWorkerProcessing 0 1)) (png_uploaded\<lparr>jobQueue := []\<rparr>))"
  have step: "workerStep quiet_world 0 png_uploaded =
        emit (Log (LogCompletedProcessing 1)) (processImage quiet_world 1 ''storage/u1.png'' ?s)"
    by (simp add: workerStep_def png_uploaded_fields processMedia_def HasPrefix_def Let_def)
  have op: "imaging_Open ?s ''storage/u1.png'' = Some (Image 300 200)"
    by (simp add: imaging_Open_def png_uploaded_fields)
  have m: "media (processImage quiet_world 1 ''storage/u1.png'' ?s) =
      [\<lparr>ID = 1, Path = ''storage/u1.png'', Thumb = Some (thumbPath 1), Mime = ''image/png'',
        Width = Some 300, Height = Some 200, SizeBytes = 2048, Tags = ''cats'',
        OcrText = Some ''hello'', ProcessingStatus = ''completed'',
        CreatedAt = ''2024-05-01 10:00:00''\<rparr>]"
    by (simp add: processImage_media [OF op] extractOCR_text png_uploaded_fields)
  have f: "media_fts (processImage quiet_world 1 ''storage/u1.png'' ?s) = media_fts png_uploaded"
    by (simp add: processImage_index_stale png_uploaded_fields)
  show ?thesis
    by (simp add: step m f png_uploaded_fields)
qed

text \<open>
  Claim C4. When \<^verbatim>\<open>processImage\<close> has decoded the image and saved the thumbnail, it runs
  the OCR command on the path it was given, and runs no other command; when the record
  update is executed, every record with the job's id has as \<^verbatim>\<open>ocr_text\<close> the text
  \<^verbatim>\<open>extractOCR\<close> returns for that path and has status \<^verbatim>\<open>completed\<close>. That text is the
  command's output (trimmed by \<^verbatim>\<open>strings.TrimSpace\<close>) when the command succeeds and the
  empty string when it fails, and the job goes on to the same end in both cases.
\<close>

theorem ocr_on_job_path_and_failure_degrades:
  assumes "imaging_Open s path = Some src" and "Save_err w = None" and "media_update_err w = None"
  shows "Exec ''tesseract'' [path, ''stdout'', ''-l'', ''eng''] \<in> set (trace (processImage w i path s))
       \<and> (\<forall>n a. Exec n a \<in> set (trace (processImage w i path s)) \<longrightarrow>
             Exec n a \<in> set (trace s) \<or> (n = ''tesseract'' \<and> a = [path, ''stdout'', ''-l'', ''eng'']))
       \<and> map ID (media (processImage w i path s)) = map ID (media s)
       \<and> (\<forall>m \<in> set (media (processImage w i path s)). ID m = i \<longrightarrow>
             OcrText m = Some (fst (extractOCR w path s)) \<and> ProcessingStatus m = ''completed'')
       \<and> (\<forall>out. tesseract w path = Some out \<longrightarrow> fst (extractOCR w path s) = TrimSpace w out)
       \<and> (tesseract w path = None \<longrightarrow> fst (extractOCR w path s) = '''')"
proof -
  have ran: "Exec ''tesseract'' [path, ''stdout'', ''-l'', ''eng'']
               \<in> set (trace (processImage w i path s))"
    by (simp add: processImage_trace [OF assms(1,2)])
  have only: "\<forall>n a. Exec n a \<in> set (trace (processImage w i path s)) \<longrightarrow>
             Exec n a \<in> set (trace s) \<or> (n = ''tesseract'' \<and> a = [path, ''stdout'', ''-l'', ''eng''])"
    by (auto simp: processImage_trace [OF assms(1,2)] split: if_splits)
  have ids: "map ID (media (processImage w i path s)) = map ID (media s)"
    by (rule processImage_media_ids [OF assms])
  have persisted: "\<forall>m \<in> set (media (processImage w i path s)). ID m = i \<longrightarrow>
             OcrText m = Some (fst (extractOCR w path s)) \<and> ProcessingStatus m = ''completed''"
    unfolding processImage_media [OF assms] ball_map_if by simp
  have returned:
    "(\<forall>out. tesseract w path = Some out \<longrightarrow> fst (extractOCR w path s) = TrimSpace w out)
       \<and> (tesseract w path = None \<longrightarrow> fst (extractOCR w path s) = '''')"
    by (simp add: extractOCR_text)
  from ran only ids persisted returned show ?thesis by blast
qed

theorem ocr_on_job_path_and_failure_degrades_witness:
  "imaging_Open png_uploaded ''storage/u1.png'' = Some (Image 300 200)
   \<and> Save_err (quiet_world\<lparr>tesseract := (\<lambda>p. None)\<rparr>) = None
   \<and> media_update_err (quiet_world\<lparr>tesseract := (\<lambda>p. None)\<rparr>) = None
   \<and> Exec ''tesseract'' [''storage/u1.png'', ''stdout'', ''-l'', ''eng'']
        \<in> set (trace (processImage (quiet_world\<lparr>tesseract := (\<lambda>p. None)\<rparr>) 1 ''storage/u1.png''
                    png_uploaded))
   \<and> map ID (media (processImage (quiet_world\<lparr>tesseract := (\<lambda>p. None)\<rparr>) 1 ''storage/u1.png''
                    png_uploaded)) = [1]
   \<and> map OcrText (media (processImage (quiet_world\<lparr>tesseract := (\<lambda>p. None)\<rparr>) 1
                    ''storage/u1.png'' png_uploaded)) = [Some '''']
   \<and> map ProcessingStatus (media (processImage (quiet_world\<lparr>tesseract := (\<lambda>p. None)\<rparr>) 1
                    ''storage/u1.png'' png_uploaded)) = [''completed'']"
proof -
  let ?w = "quiet_world\<lparr>tesseract := (\<lambda>p. None)\<rparr>"
  let ?s = "processImage ?w 1 ''storage/u1.png'' png_uploaded"
  have h: "Save_err ?w = None" "media_update_err ?w = None" by simp_all
  note fact = ocr_on_job_path_and_failure_degrades [OF png_open h, of 1]
  from fact have ids: "map ID (media ?s) = [1]"
    by (simp add: png_uploaded_fields)
  then obtain m where m: "media ?s = [m]" "ID m = 1"
    by (cases "media ?s") auto
  from fact m have "OcrText m = Some ''''" "ProcessingStatus m = ''completed''"
    by (simp_all add: extractOCR_text)
  with fact m ids png_open h show ?thesis by simp
qed

section \<open>Derived paths\<close>

text \<open>The decimal representation determines the number, so the thumbnail path and the frame
  path determine the id, and no frame path is a thumbnail path.\<close>

lemma digit_char_inj:
  assumes "a < 10" "b < 10" "''0123456789'' ! a = ''0123456789'' ! b"
  shows "a = b"
proof -
  have "distinct ''0123456789''" by simp
  moreover have "a < length ''0123456789''" "b < length ''0123456789''" using assms by simp_all
  ultimately show ?thesis using assms(3) by (simp only: nth_eq_iff_index_eq)
qed

lemma digit_char_in: "a < 10 \<Longrightarrow> ''0123456789'' ! a \<in> set ''0123456789''"
  by (rule nth_mem) simp

lemma digits_nonempty: "digits n \<noteq> []"
  by (subst digits.simps) simp

lemma digits_last: "last (digits n) = ''0123456789'' ! (n mod 10)"
  by (subst digits.simps) simp

lemma digits_butlast: "butlast (digits n) = (if n < 10 then [] else digits (n div 10))"
  by (subst digits.simps) simp

lemma digits_inj: "digits n = digits m \<Longrightarrow> n = m"
proof (induction n arbitrary: m rule: digits.induct)
  case (1 n)
  from "1.prems" have l: "last (digits n) = last (digits m)"
    and b: "butlast (digits n) = butlast (digits m)" by simp_all
  from l have "''0123456789'' ! (n mod 10) = ''0123456789'' ! (m mod 10)"
    by (simp add: digits_last)
  then have r: "n mod 10 = m mod 10" by (intro digit_char_inj) simp_all
  show ?case
  proof (cases "n < 10")
    case True
    with b have "m < 10" using digits_nonempty [of "m div 10"]
      by (auto simp: digits_butlast split: if_splits)
    with True r show ?thesis by simp
  next
    case False
    with b have m: "\<not> m < 10" and "digits (n div 10) = digits (m div 10)"
      using digits_nonempty [of "n div 10"] by (auto simp: digits_butlast split: if_splits)
    with "1.IH" False have "n div 10 = m div 10" by simp
    with r show ?thesis by (metis div_mult_mod_eq)
  qed
qed

lemma digits_chars: "set (digits n) \<subseteq> set ''0123456789''"
proof (induction n rule: digits.induct)
  case (1 n)
  show ?case
  proof (cases "n < 10")
    case True
    then have "digits n = [''0123456789'' ! n]" by (subst digits.simps) simp
    with digit_char_in [OF True] show ?thesis by simp
  next
    case False
    then have "digits n = digits (n div 10) @ [''0123456789'' ! (n mod 10)]"
      by (subst digits.simps) simp
    moreover have "''0123456789'' ! (n mod 10) \<in> set ''0123456789''"
      by (rule digit_char_in) simp
    ultimately show ?thesis using "1.IH" [OF False] by simp
  qed
qed

lemma FormatInt_inj: "FormatInt i = FormatInt j \<Longrightarrow> i = j"
proof -
  assume e: "FormatInt i = FormatInt j"
  have nominus: "CHR ''-'' # xs \<noteq> digits n" for xs n
  proof
    assume "CHR ''-'' # xs = digits n"
    then have "CHR ''-'' \<in> set (digits n)" by (metis list.set_intros(1))
    with digits_chars [of n] show False by auto
  qed
  show "i = j"
  proof (cases "i < 0"; cases "j < 0")
    assume "i < 0" "j < 0"
    with e have "nat (- i) = nat (- j)" by (simp add: FormatInt_def digits_inj)
    with \<open>i < 0\<close> \<open>j < 0\<close> show ?thesis by simp
  next
    assume "i < 0" "\<not> j < 0"
    with e nominus show ?thesis by (simp add: FormatInt_def)
  next
    assume "\<not> i < 0" "j < 0"
    with e nominus [of _ "nat i"] show ?thesis by (simp add: FormatInt_def) metis
  next
    assume "\<not> i < 0" "\<not> j < 0"
    with e have "nat i = nat j" by (simp add: FormatInt_def digits_inj)
    with \<open>\<not> i < 0\<close> \<open>\<not> j < 0\<close> show ?thesis by simp
  qed
qed

lemma thumbPath_inj: "thumbPath i = thumbPath j \<longleftrightarrow> i = j"
  by (auto simp: thumbPath_def dest: FormatInt_inj)

lemma framePath_inj: "framePath i = framePath j \<longleftrightarrow> i = j"
  by (auto simp: framePath_def dest: FormatInt_inj)

lemma frame_not_thumb: "framePath i \<noteq> thumbPath j"
proof
  assume "framePath i = thumbPath j"
  then have "rev (framePath i) ! 4 = rev (thumbPath j) ! 4" by simp
  then show False by (simp add: framePath_def thumbPath_def)
qed

lemma thumbPath_1: "thumbPath 1 = ''static/1_thumb.jpg''"
  by (simp add: thumbPath_def FormatInt_def digits.simps)

lemma framePath_1: "framePath 1 = ''static/1_frame.jpg''"
  by (simp add: framePath_def FormatInt_def digits.simps)

section \<open>Thumbnail and dimensions\<close>

text \<open>
  Claim C5. For an image of 300\<times>200 pixels at the job's path, with the thumbnail saved
  and the record update executed: the file at the thumbnail path is the image resized
  with width 200, height 0 (keep the aspect ratio) and the Lanczos filter, which is
  200\<times>133; the thumbnail path is built from the id alone and different ids have
  different paths; and every record with the job's id has that thumbnail path, width 300
  and height 200, no record being added or removed.
\<close>

theorem thumbnail_of_300x200_image:
  assumes "files s path = Some (ImageFile (Image 300 200))"
    and "Save_err w = None" and "media_update_err w = None"
  shows "files (processImage w i path s) (thumbPath i)
           = Some (ImageFile (Resize (Image 300 200) 200 0 Lanczos))
       \<and> Resize (Image 300 200) 200 0 Lanczos = Image 200 133
       \<and> thumbPath i = ''static/'' @ FormatInt i @ ''_thumb.jpg''
       \<and> (\<forall>j. thumbPath j = thumbPath i \<longrightarrow> j = i)
       \<and> map ID (media (processImage w i path s)) = map ID (media s)
       \<and> (\<forall>m \<in> set (media (processImage w i path s)). ID m = i \<longrightarrow>
             Thumb m = Some (thumbPath i) \<and> Width m = Some 300 \<and> Height m = Some 200)"
proof -
  from assms(1) have op: "imaging_Open s path = Some (Image 300 200)"
    by (simp add: imaging_Open_def)
  have saved: "files (processImage w i path s) (thumbPath i)
           = Some (ImageFile (Resize (Image 300 200) 200 0 Lanczos))"
    by (rule processImage_thumb_file [OF op assms(2)])
  have size: "Resize (Image 300 200) 200 0 Lanczos = Image 200 133"
    by (simp add: Resize_def round_div_def)
  have keyed: "\<forall>j. thumbPath j = thumbPath i \<longrightarrow> j = i"
    by (simp add: thumbPath_inj)
  have ids: "map ID (media (processImage w i path s)) = map ID (media s)"
    by (rule processImage_media_ids [OF op assms(2,3)])
  have persisted: "\<forall>m \<in> set (media (processImage w i path s)). ID m = i \<longrightarrow>
             Thumb m = Some (thumbPath i) \<and> Width m = Some 300 \<and> Height m = Some 200"
    unfolding processImage_media [OF op assms(2,3)] ball_map_if by simp
  from saved size keyed ids persisted show ?thesis
    by (simp add: thumbPath_def)
qed

theorem thumbnail_of_300x200_image_witness:
  "files png_uploaded ''storage/u1.png'' = Some (ImageFile (Image 300 200))
   \<and> Save_err quiet_world = None \<and> media_update_err quiet_world = None
   \<and> files (processImage quiet_world 1 ''storage/u1.png'' png_uploaded) ''static/1_thumb.jpg''
        = Some (ImageFile (Image 200 133))
   \<and> map ID (media (processImage quiet_world 1 ''storage/u1.png'' png_uploaded)) = [1]
   \<and> map Thumb (media (processImage quiet_world 1 ''storage/u1.png'' png_uploaded))
        = [Some ''static/1_thumb.jpg'']
   \<and> map Width (media (processImage quiet_world 1 ''storage/u1.png'' png_uploaded)) = [Some 300]
   \<and> map Height (media (processImage quiet_world 1 ''storage/u1.png'' png_uploaded)) = [Some 200]"
proof -
  let ?s = "processImage quiet_world 1 ''storage/u1.png'' png_uploaded"
  have h: "files png_uploaded ''storage/u1.png'' = Some (ImageFile (Image 300 200))"
    "Save_err quiet_world = None" "media_update_err quiet_world = None"
    by (simp_all add: png_uploaded_fields)
  note fact = thumbnail_of_300x200_image [OF h, of 1]
  from fact have written: "files ?s ''static/1_thumb.jpg'' = Some (ImageFile (Image 200 133))"
    by (simp add: thumbPath_1)
  from fact have ids: "map ID (media ?s) = [1]"
    by (simp add: png_uploaded_fields)
  then obtain m where m: "media ?s = [m]" "ID m = 1"
    by (cases "media ?s") auto
  from fact m have "Thumb m = Some ''static/1_thumb.jpg''" "Width m = Some 300"
    "Height m = Some 200"
    by (simp_all add: thumbPath_1)
  with written m ids h show ?thesis by simp
qed

section \<open>Aborted image jobs\<close>

text \<open>
  Claim C6. When the image at the path does not decode, or the thumbnail cannot be
  saved, \<^verbatim>\<open>processImage\<close> returns having written one log line and nothing else: both
  tables, the files and the job queue are as before, and no SQL statement was sent. The
  function has no result, so no caller learns of the failure.
\<close>

theorem processImage_abort_changes_nothing:
  assumes "imaging_Open s path = None \<or> Save_err w \<noteq> None"
  shows "media (processImage w i path s) = media s
       \<and> media_fts (processImage w i path s) = media_fts s
       \<and> jobQueue (processImage w i path s) = jobQueue s
       \<and> files (processImage w i path s) = files s
       \<and> (\<exists>l. trace (processImage w i path s) = trace s @ [Log l])
       \<and> (\<forall>q. Sql q \<in> set (trace (processImage w i path s)) \<longrightarrow> Sql q \<in> set (trace s))"
proof -
  from processImage_abort [OF assms] obtain l where "processImage w i path s = emit (Log l) s"
    by blast
  then show ?thesis by simp
qed

theorem processImage_abort_changes_nothing_witness:
  "Save_err (quiet_world\<lparr>Save_err := Some ''disk full''\<rparr>) = Some ''disk full''
   \<and> imaging_Open empty_state ''storage/u1.png'' = None
   \<and> media (processImage (quiet_world\<lparr>Save_err := Some ''disk full''\<rparr>) 1 ''storage/u1.png''
              png_uploaded) = media png_uploaded
   \<and> media_fts (processImage (quiet_world\<lparr>Save_err := Some ''disk full''\<rparr>) 1 ''storage/u1.png''
              png_uploaded) = media_fts png_uploaded
   \<and> map ProcessingStatus (media (processImage (quiet_world\<lparr>Save_err := Some ''disk full''\<rparr>) 1
              ''storage/u1.png'' png_uploaded)) = [''processing'']
   \<and> media (processImage quiet_world 1 ''storage/u1.png'' empty_state) = media empty_state
   \<and> media_fts (processImage quiet_world 1 ''storage/u1.png'' empty_state) = media_fts empty_state"
proof -
  let ?w = "quiet_world\<lparr>Save_err := Some ''disk full''\<rparr>"
  have h1: "imaging_Open png_uploaded ''storage/u1.png'' = None \<or> Save_err ?w \<noteq> None"
    by simp
  have h2: "imaging_Open empty_state ''storage/u1.png'' = None \<or> Save_err quiet_world \<noteq> None"
    by (simp add: imaging_Open_def empty_state_def)
  from processImage_abort_changes_nothing [OF h1, of 1]
  have a: "media (processImage ?w 1 ''storage/u1.png'' png_uploaded) = media png_uploaded"
    "media_fts (processImage ?w 1 ''storage/u1.png'' png_uploaded) = media_fts png_uploaded"
    by blast+
  from processImage_abort_changes_nothing [OF h2, of 1]
  have b: "media (processImage quiet_world 1 ''storage/u1.png'' empty_state) = media empty_state"
    "media_fts (processImage quiet_world 1 ''storage/u1.png'' empty_state) = media_fts empty_state"
    by blast+
  from a b show ?thesis
    by (simp add: png_uploaded_fields imaging_Open_def empty_state_def)
qed

section \<open>The temporary frame file\<close>

lemma os_Remove_fields [simp]:
  "media (os_Remove e p s) = media s"
  "media_fts (os_Remove e p s) = media_fts s"
  "jobQueue (os_Remove e p s) = jobQueue s"
  "trace (os_Remove e p s) = trace s"
  "files (os_Remove e p s) p = (if e = None then None else files s p)"
  by (simp_all add: os_Remove_def)

lemma extractOCR_ignores_Remove_err:
  "extractOCR (w\<lparr>Remove_err := e\<rparr>) path s = extractOCR w path s"
  by (simp add: extractOCR_def Let_def split: option.splits)

lemma processImage_ignores_Remove_err:
  "processImage (w\<lparr>Remove_err := e\<rparr>) i path s = processImage w i path s"
  by (cases "imaging_Open s path")
     (simp_all add: processImage_def extractOCR_ignores_Remove_err Let_def)

lemma processVideoOrGif_frame_file:
  "files (processVideoOrGif w i path s) (framePath i) =
     (if ffmpeg_err w = None \<and> Remove_err w = None then None
      else case ffmpeg_out w path of
             None \<Rightarrow> files s (framePath i)
           | Some frame \<Rightarrow> Some frame)"
  by (auto simp: processVideoOrGif_def Let_def processImage_files frame_not_thumb
        split: option.splits)

lemma processVideoOrGif_extraction_failed:
  "ffmpeg_err w \<noteq> None \<Longrightarrow>
     files (processVideoOrGif w i path s) =
       (case ffmpeg_out w path of
          None \<Rightarrow> files s
        | Some frame \<Rightarrow> (files s)(framePath i \<mapsto> frame))"
  by (simp add: processVideoOrGif_def Let_def split: option.splits)

lemma processVideoOrGif_Remove_err:
  "media (processVideoOrGif (w\<lparr>Remove_err := e\<rparr>) i path s) = media (processVideoOrGif w i path s)"
  "media_fts (processVideoOrGif (w\<lparr>Remove_err := e\<rparr>) i path s)
     = media_fts (processVideoOrGif w i path s)"
  "jobQueue (processVideoOrGif (w\<lparr>Remove_err := e\<rparr>) i path s)
     = jobQueue (processVideoOrGif w i path s)"
  "trace (processVideoOrGif (w\<lparr>Remove_err := e\<rparr>) i path s)
     = trace (processVideoOrGif w i path s)"
  by (simp_all add: processVideoOrGif_def Let_def processImage_ignores_Remove_err
        split: option.splits)

lemma worker_takes_mp4_job:
  "workerStep w 0 mp4_uploaded =
     emit (Log (LogCompletedProcessing 1))
       (processVideoOrGif w 1 ''storage/u2.mp4''
          (emit (Log (LogStartingProcessing 1 ''storage/u2.mp4'' ''video/mp4''))
             (emit (Log (LogWorkerProcessing 0 1)) (mp4_uploaded\<lparr>jobQueue := []\<rparr>))))"
  by (simp add: workerStep_def mp4_uploaded_fields processMedia_def HasPrefix_def Let_def)

text \<open>
  Claim C8, as stated: after every video job the frame file does not exist. It fails on
  two paths of the code. When \<^verbatim>\<open>os.Remove\<close> fails: the uploaded \<^verbatim>\<open>clip.mp4\<close> is processed
  by a worker, the frame is extracted, and the removal returns an error, which the code
  ignores; the frame file is still on disk when the job has finished. When the extraction
  fails after ffmpeg has written a file at the frame path: the function logs and returns
  without calling \<^verbatim>\<open>os.Remove\<close>, and that file is still on disk when the job has finished.
\<close>

theorem frame_file_left_behind:
  "files (workerStep (quiet_world\<lparr>Remove_err := Some ''permission denied''\<rparr>) 0 mp4_uploaded)
     ''static/1_frame.jpg'' = Some (ImageFile (Image 640 480))
   \<and> files (workerStep (quiet_world\<lparr>ffmpeg_err := Some ''exit status 1'',
                                      ffmpeg_out := (\<lambda>p. Some OtherFile)\<rparr>) 0 mp4_uploaded)
     ''static/1_frame.jpg'' = Some OtherFile"
  by (simp add: worker_takes_mp4_job processVideoOrGif_frame_file [of _ 1, unfolded framePath_1])

text \<open>
  Claim C8, amended. When the frame extraction returns no error, \<^verbatim>\<open>processVideoOrGif\<close>
  calls \<^verbatim>\<open>os.Remove\<close> on the frame path after \<^verbatim>\<open>processImage\<close> has returned, whatever
  \<^verbatim>\<open>processImage\<close> did: if the removal succeeds the frame file does not exist afterwards,
  and if it fails the file that the extraction wrote (or, if it wrote none, whatever was at
  the frame path before) is still there. The error of the removal changes nothing else:
  the tables, the job queue and the events are the same with and without it. When the
  extraction returns an error the function returns without calling \<^verbatim>\<open>os.Remove\<close>: the
  files are those the ffmpeg run has left, so a frame file it wrote before failing stays.
  Different ids have different frame paths.
\<close>

theorem frame_file_removed_when_removal_succeeds:
  "(ffmpeg_err w = None \<and> Remove_err w = None \<longrightarrow>
      files (processVideoOrGif w i path s) (framePath i) = None)
   \<and> (ffmpeg_err w = None \<and> Remove_err w \<noteq> None \<longrightarrow>
      files (processVideoOrGif w i path s) (framePath i) =
        (case ffmpeg_out w path of None \<Rightarrow> files s (framePath i) | Some frame \<Rightarrow> Some frame))
   \<and> (ffmpeg_err w \<noteq> None \<longrightarrow>
      files (processVideoOrGif w i path s) =
        (case ffmpeg_out w path of
           None \<Rightarrow> files s
         | Some frame \<Rightarrow> (files s)(framePath i \<mapsto> frame)))
   \<and> media (processVideoOrGif (w\<lparr>Remove_err := e\<rparr>) i path s)
        = media (processVideoOrGif w i path s)
   \<and> media_fts (processVideoOrGif (w\<lparr>Remove_err := e\<rparr>) i path s)
        = media_fts (processVideoOrGif w i path s)
   \<and> jobQueue (processVideoOrGif (w\<lparr>Remove_err := e\<rparr>) i path s)
        = jobQueue (processVideoOrGif w i path s)
   \<and> trace (processVideoOrGif (w\<lparr>Remove_err := e\<rparr>) i path s)
        = trace (processVideoOrGif w i path s)
   \<and> framePath i = ''static/'' @ FormatInt i @ ''_frame.jpg''
   \<and> (\<forall>j. framePath j = framePath i \<longrightarrow> j = i)"
proof -
  have removed: "ffmpeg_err w = None \<and> Remove_err w = None \<longrightarrow>
      files (processVideoOrGif w i path s) (framePath i) = None"
    by (simp add: processVideoOrGif_frame_file)
  have left: "ffmpeg_err w = None \<and> Remove_err w \<noteq> None \<longrightarrow>
      files (processVideoOrGif w i path s) (framePath i) =
        (case ffmpeg_out w path of None \<Rightarrow> files s (framePath i) | Some frame \<Rightarrow> Some frame)"
    by (auto simp: processVideoOrGif_frame_file)
  have failed: "ffmpeg_err w \<noteq> None \<longrightarrow>
      files (processVideoOrGif w i path s) =
        (case ffmpeg_out w path of
           None \<Rightarrow> files s
         | Some frame \<Rightarrow> (files s)(framePath i \<mapsto> frame))"
    by (simp add: processVideoOrGif_extraction_failed)
  have keyed: "framePath i = ''static/'' @ FormatInt i @ ''_frame.jpg''
               \<and> (\<forall>j. framePath j = framePath i \<longrightarrow> j = i)"
    by (simp add: framePath_inj) (simp add: framePath_def)
  from removed left failed keyed show ?thesis
    by (simp only: processVideoOrGif_Remove_err) simp
qed

theorem frame_file_removed_when_removal_succeeds_witness:
  "ffmpeg_err quiet_world = None \<and> Remove_err quiet_world = None
   \<and> files (processVideoOrGif quiet_world 1 ''storage/u2.mp4'' mp4_uploaded)
        ''static/1_frame.jpg'' = None
   \<and> ffmpeg_err (quiet_world\<lparr>ffmpeg_out := (\<lambda>p. Some OtherFile)\<rparr>) = None
   \<and> Remove_err (quiet_world\<lparr>ffmpeg_out := (\<lambda>p. Some OtherFile)\<rparr>) = None
   \<and> files (processVideoOrGif (quiet_world\<lparr>ffmpeg_out := (\<lambda>p. Some OtherFile)\<rparr>) 1
        ''storage/u2.mp4'' mp4_uploaded) ''static/1_frame.jpg'' = None
   \<and> ffmpeg_err (quiet_world\<lparr>ffmpeg_err := Some ''exit status 1'',
                              ffmpeg_out := (\<lambda>p. Some OtherFile)\<rparr>) = Some ''exit status 1''
   \<and> files (processVideoOrGif (quiet_world\<lparr>ffmpeg_err := Some ''exit status 1'',
                                           ffmpeg_out := (\<lambda>p. Some OtherFile)\<rparr>) 1
        ''storage/u2.mp4'' mp4_uploaded) ''static/1_frame.jpg'' = Some OtherFile
   \<and> Remove_err (quiet_world\<lparr>Remove_err := Some ''permission denied''\<rparr>)
        = Some ''permission denied''
   \<and> files (processVideoOrGif (quiet_world\<lparr>Remove_err := Some ''permission denied''\<rparr>) 1
        ''storage/u2.mp4'' mp4_uploaded) ''static/1_frame.jpg'' = Some (ImageFile (Image 640 480))"
proof -
  let ?w2 = "quiet_world\<lparr>ffmpeg_out := (\<lambda>p. Some OtherFile)\<rparr>"
  let ?w3 = "quiet_world\<lparr>ffmpeg_err := Some ''exit status 1'',
                          ffmpeg_out := (\<lambda>p. Some OtherFile)\<rparr>"
  let ?w4 = "quiet_world\<lparr>Remove_err := Some ''permission denied''\<rparr>"
  have h1: "ffmpeg_err quiet_world = None \<and> Remove_err quiet_world = None"
    by simp
  have h2: "ffmpeg_err ?w2 = None \<and> Remove_err ?w2 = None"
    by simp
  have h3: "ffmpeg_err ?w3 \<noteq> None"
    by simp
  have h4: "ffmpeg_err ?w4 = None \<and> Remove_err ?w4 \<noteq> None"
    by simp
  from frame_file_removed_when_removal_succeeds
         [where w = quiet_world and path = "''storage/u2.mp4''" and i = 1 and s = mp4_uploaded] h1
  have a: "files (processVideoOrGif quiet_world 1 ''storage/u2.mp4'' mp4_uploaded)
             (framePath 1) = None"
    by blast
  from frame_file_removed_when_removal_succeeds
         [where w = ?w2 and path = "''storage/u2.mp4''" and i = 1 and s = mp4_uploaded] h2
  have b: "files (processVideoOrGif ?w2 1 ''storage/u2.mp4'' mp4_uploaded) (framePath 1) = None"
    by blast
  from frame_file_removed_when_removal_succeeds
         [where w = ?w3 and path = "''storage/u2.mp4''" and i = 1 and s = mp4_uploaded] h3
  have "files (processVideoOrGif ?w3 1 ''storage/u2.mp4'' mp4_uploaded) =
          (case ffmpeg_out ?w3 ''storage/u2.mp4'' of
             None \<Rightarrow> files mp4_uploaded
           | Some frame \<Rightarrow> (files mp4_uploaded)(framePath 1 \<mapsto> frame))"
    by blast
  then have c: "files (processVideoOrGif ?w3 1 ''storage/u2.mp4'' mp4_uploaded) (framePath 1)
                  = Some OtherFile"
    by simp
  from frame_file_removed_when_removal_succeeds
         [where w = ?w4 and path = "''storage/u2.mp4''" and i = 1 and s = mp4_uploaded] h4
  have "files (processVideoOrGif ?w4 1 ''storage/u2.mp4'' mp4_uploaded) (framePath 1) =
          (case ffmpeg_out ?w4 ''storage/u2.mp4'' of
             None \<Rightarrow> files mp4_uploaded (framePath 1)
           | Some frame \<Rightarrow> Some frame)"
    by blast
  then have d: "files (processVideoOrGif ?w4 1 ''storage/u2.mp4'' mp4_uploaded) (framePath 1)
                  = Some (ImageFile (Image 640 480))"
    by simp
  from a b c d show ?thesis by (simp add: framePath_1)
qed

section \<open>Ingestion\<close>


lemma DB_Exec_fts_keeps_media [simp]:
  "media (snd (DB_Exec r (InsertFts i t g p) s)) = media s"
  "media (snd (DB_Exec r (UpdateFtsTags g i) s)) = media s"
  "media (snd (DB_Exec r (UpdateFtsOcr t i) s)) = media s"
  by (simp_all add: DB_Exec_def Let_def)







section \<open>The query engine\<close>

lemma order_by_created_at_desc_mset [simp]: "mset (order_by_created_at_desc ms) = mset ms"
  by (simp add: order_by_created_at_desc_def)

lemma order_by_created_at_desc_sorted:
  "sorted (rev (map CreatedAt (order_by_created_at_desc ms)))"
  by (simp add: order_by_created_at_desc_def rev_map)

text \<open>Records created at the same time come back in the order of the table.\<close>

lemma order_by_created_at_desc_ties:
  assumes "\<forall>m \<in> set ms. CreatedAt m = k"
  shows "order_by_created_at_desc ms = ms"
proof -
  have "filter (\<lambda>m. CreatedAt m = k) (sort_key CreatedAt (rev ms))
          = filter (\<lambda>m. CreatedAt m = k) (rev ms)"
    by (rule sort_key_stable)
  moreover have "filter (\<lambda>m. CreatedAt m = k) (sort_key CreatedAt (rev ms))
                   = sort_key CreatedAt (rev ms)"
    using assms by (intro filter_True) simp
  moreover have "filter (\<lambda>m. CreatedAt m = k) (rev ms) = rev ms"
    using assms by (intro filter_True) simp
  ultimately have "sort_key CreatedAt (rev ms) = rev ms" by simp
  then show ?thesis by (simp add: order_by_created_at_desc_def)
qed

text \<open>
  Claim C7. For a non-empty query whose query on the index succeeds, the ids are the
  \<^verbatim>\<open>rowid\<close>s of the index rows the query matches, computed from \<^verbatim>\<open>media_fts\<close> alone. If
  there is none, \<^verbatim>\<open>getMedia\<close> returns the empty list and the only statement it has sent is
  the query on the index, whatever the table \<^verbatim>\<open>media\<close> would have answered. Otherwise, when
  the query on \<^verbatim>\<open>media\<close> succeeds, it returns exactly the records whose id is among those
  ids, each once, ordered by \<^verbatim>\<open>created_at\<close> descending, having sent the query on the index
  and then the one query on \<^verbatim>\<open>media\<close> for these ids.
\<close>

theorem getMedia_nonempty_query:
  assumes "query \<noteq> ''''"
  shows "(map rowid (filter (matches query) (media_fts s)) = [] \<longrightarrow>
           fst (getMedia matches None media_refusal query s) = Returned []
           \<and> trace (snd (getMedia matches None media_refusal query s)) =
               trace s @ [Log (LogFTSQuery query), Sql (SelectFtsMatch query), Log (LogMatchingIds [])])
       \<and> (map rowid (filter (matches query) (media_fts s)) \<noteq> [] \<longrightarrow>
           (\<exists>rows. fst (getMedia matches None None query s) = Returned rows
              \<and> mset rows = mset (filter (\<lambda>m. ID m \<in> set (map rowid (filter (matches query) (media_fts s))))
                                     (media s))
              \<and> sorted (rev (map CreatedAt rows))
              \<and> trace (snd (getMedia matches None None query s)) =
                  trace s @ [Log (LogFTSQuery query), Sql (SelectFtsMatch query),
                     Log (LogMatchingIds (map rowid (filter (matches query) (media_fts s)))),
                     Sql (SelectMediaIn (map rowid (filter (matches query) (media_fts s)))),
                     Log (LogReturning (length rows))]))"
  using assms
  by (simp add: getMedia_def Let_def order_by_created_at_desc_sorted)

theorem getMedia_nonempty_query_witness:
  "''dogs'' \<noteq> '''' \<and> ''cats'' \<noteq> ''''
   \<and> map rowid (filter (tags_match ''dogs'') (media_fts two_uploaded)) = []
   \<and> fst (getMedia tags_match None None ''dogs'' two_uploaded) = Returned []
   \<and> trace (snd (getMedia tags_match None None ''dogs'' two_uploaded)) =
        trace two_uploaded @
          [Log (LogFTSQuery ''dogs''), Sql (SelectFtsMatch ''dogs''), Log (LogMatchingIds [])]
   \<and> map rowid (filter (tags_match ''cats'') (media_fts two_uploaded)) = [1, 2]
   \<and> fst (getMedia tags_match None None ''cats'' two_uploaded) = Returned (rev (media two_uploaded))
   \<and> map CreatedAt (rev (media two_uploaded)) = [''2024-05-01 10:00:07'', ''2024-05-01 10:00:00'']
   \<and> sorted (rev (map CreatedAt (rev (media two_uploaded))))"
proof -
  have q: "''dogs'' \<noteq> ''''" "''cats'' \<noteq> ''''" by simp_all
  have none: "map rowid (filter (tags_match ''dogs'') (media_fts two_uploaded)) = []"
    by (simp add: two_uploaded_fields tags_match_def)
  have both: "map rowid (filter (tags_match ''cats'') (media_fts two_uploaded)) = [1, 2]"
    by (simp add: two_uploaded_fields tags_match_def)
  note dogs = getMedia_nonempty_query [OF q(1), of tags_match two_uploaded None, THEN conjunct1,
    rule_format, OF none]
  have run: "fst (getMedia tags_match None None ''cats'' two_uploaded) = Returned (rev (media two_uploaded))"
    by (simp add: getMedia_def Let_def tags_match_def order_by_created_at_desc_def
          two_uploaded_fields)
  from getMedia_nonempty_query [OF q(2), of tags_match two_uploaded, THEN conjunct2] both
  obtain rows where rows: "fst (getMedia tags_match None None ''cats'' two_uploaded) = Returned rows"
    "sorted (rev (map CreatedAt rows))"
    by auto
  with run have srt: "sorted (rev (map CreatedAt (rev (media two_uploaded))))" by simp
  have times: "map CreatedAt (rev (media two_uploaded))
                 = [''2024-05-01 10:00:07'', ''2024-05-01 10:00:00'']"
    by (simp add: two_uploaded_fields)
  from q none both dogs run srt times show ?thesis by simp
qed

section \<open>Tag edits\<close>

lemma updateTags_response_ignores_state:
  "fst (updateTagsHandler refusal1 refusal2 idStr tags s)
     = fst (updateTagsHandler refusal1 refusal2 idStr tags s2)"
  by (simp add: updateTagsHandler_def DB_Exec_def Let_def split_def split: option.splits)

lemma ParseInt_42: "ParseInt ''42'' = Some 42"
  by (simp add: ParseInt_def digit_val_def)

lemma ParseInt_1: "ParseInt ''1'' = Some 1"
  by (simp add: ParseInt_def digit_val_def)

text \<open>
  Claim C10. For a path parameter that parses as an integer and is the id of no record, in
  a database whose index rows are all keyed by ids of records, \<^verbatim>\<open>updateTagsHandler\<close>
  answers 200 with the submitted tags when the database executes the UPDATE of \<^verbatim>\<open>media\<close>
  (which selects no row), and leaves both tables as they were. It gives that same answer
  in every other state, so also in one where the id exists and the edit changes a record.
\<close>

theorem updateTags_unknown_id:
  assumes "ParseInt idStr = Some i"
    and "i \<notin> set (map ID (media s))"
    and "set (map rowid (media_fts s)) \<subseteq> set (map ID (media s))"
  shows "fst (updateTagsHandler None refusal2 idStr tags s) = Text 200 tags
       \<and> media (snd (updateTagsHandler None refusal2 idStr tags s)) = media s
       \<and> media_fts (snd (updateTagsHandler None refusal2 idStr tags s)) = media_fts s
       \<and> fst (updateTagsHandler None refusal2 idStr tags s2) = Text 200 tags"
proof -
  from assms(2) have m: "map (\<lambda>m. if ID m = i then m\<lparr>Tags := tags\<rparr> else m) (media s) = media s"
    by (intro map_idI) auto
  from assms(2,3) have "i \<notin> set (map rowid (media_fts s))" by blast
  then have f: "map (\<lambda>r. if rowid r = i then r\<lparr>fts_tags := tags\<rparr> else r) (media_fts s)
                  = media_fts s"
    by (intro map_idI) auto
  have resp: "fst (updateTagsHandler None refusal2 idStr tags t) = Text 200 tags" for t
    using assms(1) by (simp add: updateTagsHandler_def DB_Exec_def Let_def split_def)
  have keep: "media (snd (updateTagsHandler None refusal2 idStr tags s)) = media s"
    "media_fts (snd (updateTagsHandler None refusal2 idStr tags s)) = media_fts s"
    using assms(1) m f by (simp_all add: updateTagsHandler_def DB_Exec_def Let_def split_def)
  from resp keep show ?thesis by simp
qed

theorem updateTags_unknown_id_witness:
  "ParseInt ''42'' = Some 42
   \<and> (42::int) \<notin> set (map ID (media png_uploaded))
   \<and> set (map rowid (media_fts png_uploaded)) \<subseteq> set (map ID (media png_uploaded))
   \<and> fst (updateTagsHandler None None ''42'' ''dogs'' png_uploaded) = Text 200 ''dogs''
   \<and> media (snd (updateTagsHandler None None ''42'' ''dogs'' png_uploaded)) = media png_uploaded
   \<and> media_fts (snd (updateTagsHandler None None ''42'' ''dogs'' png_uploaded))
        = media_fts png_uploaded
   \<and> fst (updateTagsHandler None None ''1'' ''dogs'' png_uploaded) = Text 200 ''dogs''
   \<and> map Tags (media (snd (updateTagsHandler None None ''1'' ''dogs'' png_uploaded))) = [''dogs'']"
proof -
  have h: "(42::int) \<notin> set (map ID (media png_uploaded))"
    "set (map rowid (media_fts png_uploaded)) \<subseteq> set (map ID (media png_uploaded))"
    by (simp_all add: png_uploaded_fields)
  note fact = updateTags_unknown_id [OF ParseInt_42 h, of None "''dogs''" png_uploaded]
  have same: "fst (updateTagsHandler None None ''1'' ''dogs'' png_uploaded)
                = fst (updateTagsHandler None None ''42'' ''dogs'' png_uploaded)"
    by (simp add: updateTagsHandler_def ParseInt_1 ParseInt_42 DB_Exec_def Let_def)
  have edit: "map Tags (media (snd (updateTagsHandler None None ''1'' ''dogs'' png_uploaded)))
                = [''dogs'']"
    by (simp add: updateTagsHandler_def ParseInt_1 DB_Exec_def Let_def png_uploaded_fields)
  from fact same edit h ParseInt_42 show ?thesis by simp
qed

section \<open>Invariants of the tables\<close>

text \<open>
  No operation removes a row or changes a key. Every index row is inserted by
  \<^verbatim>\<open>uploadHandler\<close> under the id of the record it has just created and with the column
  \<^verbatim>\<open>id\<close> NULL: a database in which all index rows are keyed by ids of records and have
  that column NULL stays so.
\<close>

lemma processImage_table_keys:
  "map ID (media (processImage w i path s)) = map ID (media s)"
  "map rowid (media_fts (processImage w i path s)) = map rowid (media_fts s)"
  by (simp_all add: processImage_def DB_Exec_def Let_def split_def o_def if_distrib
        split: option.splits cong: if_cong)

lemma processVideoOrGif_table_keys:
  "map ID (media (processVideoOrGif w i path s)) = map ID (media s)"
  "map rowid (media_fts (processVideoOrGif w i path s)) = map rowid (media_fts s)"
  by (simp_all add: processVideoOrGif_def Let_def processImage_table_keys split: option.splits)

lemma processMedia_table_keys:
  "map ID (media (processMedia w i path mimeType s)) = map ID (media s)"
  "map rowid (media_fts (processMedia w i path mimeType s)) = map rowid (media_fts s)"
  by (simp_all add: processMedia_def Let_def processImage_table_keys processVideoOrGif_table_keys)

lemma updateTags_table_keys:
  "map ID (media (snd (updateTagsHandler r1 r2 idStr tags s))) = map ID (media s)"
  "map rowid (media_fts (snd (updateTagsHandler r1 r2 idStr tags s))) = map rowid (media_fts s)"
  by (simp_all add: updateTagsHandler_def DB_Exec_def Let_def split_def o_def if_distrib
        split: option.splits cong: if_cong)

lemma uploadFiles_index_keyed:
  assumes "set (map rowid (media_fts s)) \<subseteq> set (map ID (media s))"
  shows "set (map rowid (media_fts (snd (uploadFiles tbe tags fs s))))
           \<subseteq> set (map ID (media (snd (uploadFiles tbe tags fs s))))"
  using assms
proof (induction fs arbitrary: s)
  case Nil
  then show ?case by simp
next
  case (Cons a fs)
  obtain fh io where a: "a = (fh, io)" by (cases a)
  let ?path = "''storage/'' @ new_uuid io @ Ext (Filename fh)"
  let ?mime = "mimeTypeOf tbe (Ext (Filename fh))"
  let ?s1 = "s\<lparr>files := (files s)(?path \<mapsto> Data fh), now := clock io\<rparr>"
  let ?q = "InsertMedia ?path ?mime (stat_size io) tags ''processing''"
  let ?s2 = "run_sql ?q (emit (Sql ?q) ?s1)"
  let ?r = "DB_Exec (fts_insert_err io) (InsertFts (LastInsertId ?s2) '''' tags ?path) ?s2"
  let ?s4 = "if fst ?r \<noteq> None then emit (Log LogFailedInsertFTS) (snd ?r) else snd ?r"
  let ?s5 = "?s4\<lparr>jobQueue := jobQueue ?s4 @
               [\<lparr>JobID = LastInsertId ?s2, JobPath = ?path, JobMimeType = ?mime\<rparr>]\<rparr>"
  show ?case
  proof (cases "save_err io = None \<and> stat_err io = None \<and> insert_err io = None
                 \<and> last_id_err io = None")
    case True
    then have ok: "save_err io = None" "stat_err io = None" "insert_err io = None"
      "last_id_err io = None" by simp_all
    have ins: "DB_Exec None ?q ?s1 = (None, ?s2)"
      by (simp add: DB_Exec_def Let_def)
    have eq: "uploadFiles tbe tags ((fh, io) # fs) s = uploadFiles tbe tags fs ?s5"
      by (simp only: uploadFiles.simps Let_def ok option.case ins prod.case split_def
            fst_conv snd_conv)
    have "set (map rowid (media_fts ?s5)) \<subseteq> set (map ID (media ?s5))"
      using Cons.prems by (auto simp: DB_Exec_def Let_def LastInsertId_def)
    from Cons.IH [OF this] show ?thesis unfolding a eq .
  next
    case False
    then show ?thesis
      using Cons.prems unfolding a
      by (auto simp: Let_def split_def DB_Exec_def split: option.splits)
  qed
qed

lemma uploadHandler_index_keyed:
  assumes "set (map rowid (media_fts s)) \<subseteq> set (map ID (media s))"
  shows "set (map rowid (media_fts (snd (uploadHandler tbe req s))))
           \<subseteq> set (map ID (media (snd (uploadHandler tbe req s))))"
  using assms uploadFiles_index_keyed [OF assms, of tbe "form_tags req" "form_files req"]
  by (simp add: uploadHandler_def split: option.splits del: uploadFiles.simps)

lemma uploadFiles_fts_id_null:
  assumes "\<forall>r \<in> set (media_fts s). fts_id r = None"
  shows "\<forall>r \<in> set (media_fts (snd (uploadFiles tbe tags fs s))). fts_id r = None"
  using assms
proof (induction fs arbitrary: s)
  case Nil
  then show ?case by simp
next
  case (Cons a fs)
  obtain fh io where a: "a = (fh, io)" by (cases a)
  let ?path = "''storage/'' @ new_uuid io @ Ext (Filename fh)"
  let ?mime = "mimeTypeOf tbe (Ext (Filename fh))"
  let ?s1 = "s\<lparr>files := (files s)(?path \<mapsto> Data fh), now := clock io\<rparr>"
  let ?q = "InsertMedia ?path ?mime (stat_size io) tags ''processing''"
  let ?s2 = "run_sql ?q (emit (Sql ?q) ?s1)"
  let ?r = "DB_Exec (fts_insert_err io) (InsertFts (LastInsertId ?s2) [] tags ?path) ?s2"
  let ?s4 = "if fst ?r \<noteq> None then emit (Log LogFailedInsertFTS) (snd ?r) else snd ?r"
  let ?s5 = "?s4\<lparr>jobQueue := jobQueue ?s4 @
               [\<lparr>JobID = LastInsertId ?s2, JobPath = ?path, JobMimeType = ?mime\<rparr>]\<rparr>"
  show ?case
  proof (cases "save_err io = None \<and> stat_err io = None \<and> insert_err io = None
                 \<and> last_id_err io = None")
    case True
    then have ok: "save_err io = None" "stat_err io = None" "insert_err io = None"
      "last_id_err io = None" by simp_all
    have ins: "DB_Exec None ?q ?s1 = (None, ?s2)"
      by (simp add: DB_Exec_def Let_def)
    have eq: "uploadFiles tbe tags ((fh, io) # fs) s = uploadFiles tbe tags fs ?s5"
      by (simp only: uploadFiles.simps Let_def ok option.case ins prod.case split_def
            fst_conv snd_conv)
    have "\<forall>r \<in> set (media_fts ?s5). fts_id r = None"
      using Cons.prems by (auto simp: DB_Exec_def Let_def)
    from Cons.IH [OF this] show ?thesis unfolding a eq .
  next
    case False
    then show ?thesis
      using Cons.prems unfolding a
      by (auto simp: Let_def split_def DB_Exec_def split: option.splits)
  qed
qed

lemma updateTags_fts_id_null:
  assumes "\<forall>r \<in> set (media_fts s). fts_id r = None"
  shows "\<forall>r \<in> set (media_fts (snd (updateTagsHandler r1 r2 idStr tags s))). fts_id r = None"
  using assms
  by (auto simp: updateTagsHandler_def DB_Exec_def Let_def split_def split: option.splits)

end
